theory Spec2Isabelle
  imports Complex_Main "HOL-Library.Sublist"
begin

unbundle bit_operations_syntax

section \<open>Python numbers and exceptions\<close>

text \<open>
  The attributes read by \<^verbatim>\<open>exchange_blotter.py\<close> (prices, volumes, amounts, rates) are
  Python numbers. Two kinds matter, because the operator \<^verbatim>\<open>&\<close> tells them apart: an
  \<^verbatim>\<open>int\<close> (unbounded, modelled by \<^typ>\<open>int\<close>) and a \<^verbatim>\<open>float\<close>. A float is
  idealised as a \<^typ>\<open>real\<close>: rounding, overflow, infinities and NaN are not modelled,
  so every equation below about a float is an equation of exact arithmetic.
\<close>

datatype pynum = PInt int | PFloat real

fun num_val :: "pynum \<Rightarrow> real" where
  "num_val (PInt i) = real_of_int i"
| "num_val (PFloat x) = x"

text \<open>
  Exceptions that can travel through the module: the liquidity signal imported from
  \<^verbatim>\<open>catalyst.finance.slippage\<close>, the \<^verbatim>\<open>TypeError\<close> of an operator applied to
  operands it does not support, and any other exception of a collaborator.
\<close>

datatype exn = LiquidityExceeded | TypeError | OtherError string

text \<open>\<^verbatim>\<open>x + y\<close>, \<^verbatim>\<open>x - y\<close>, \<^verbatim>\<open>x * y\<close>: an int when both operands are ints, a float otherwise.\<close>

fun py_add :: "pynum \<Rightarrow> pynum \<Rightarrow> pynum" where
  "py_add (PInt a) (PInt b) = PInt (a + b)"
| "py_add x y = PFloat (num_val x + num_val y)"

fun py_sub :: "pynum \<Rightarrow> pynum \<Rightarrow> pynum" where
  "py_sub (PInt a) (PInt b) = PInt (a - b)"
| "py_sub x y = PFloat (num_val x - num_val y)"

fun py_mul :: "pynum \<Rightarrow> pynum \<Rightarrow> pynum" where
  "py_mul (PInt a) (PInt b) = PInt (a * b)"
| "py_mul x y = PFloat (num_val x * num_val y)"

text \<open>
  \<^verbatim>\<open>x & y\<close>: the bitwise conjunction of two ints (two's complement, unbounded); with a
  float on either side Python raises \<^verbatim>\<open>TypeError: unsupported operand type(s) for &\<close>.
\<close>

fun py_and :: "pynum \<Rightarrow> pynum \<Rightarrow> exn + pynum" where
  "py_and (PInt a) (PInt b) = Inr (PInt (a AND b))"
| "py_and x y = Inl TypeError"

text \<open>\<^verbatim>\<open>abs(x)\<close> keeps the kind of its operand.\<close>

fun py_abs :: "pynum \<Rightarrow> pynum" where
  "py_abs (PInt a) = PInt \<bar>a\<bar>"
| "py_abs (PFloat x) = PFloat \<bar>x\<bar>"

text \<open>\<^verbatim>\<open>x == 0\<close> and \<^verbatim>\<open>x > 0\<close> compare the numeric values, whatever the kinds.\<close>

definition py_eq0 :: "pynum \<Rightarrow> bool" where
  "py_eq0 x = (num_val x = 0)"

definition py_gt0 :: "pynum \<Rightarrow> bool" where
  "py_gt0 x = (0 < num_val x)"

section \<open>Data model\<close>

text \<open>
  An order, as far as the module reads it: \<^verbatim>\<open>id\<close>, \<^verbatim>\<open>asset\<close>, \<^verbatim>\<open>amount\<close>,
  \<^verbatim>\<open>open_amount\<close>. The class \<^verbatim>\<open>Order\<close> itself is not part of the module; whatever it
  keeps to decide \<^verbatim>\<open>triggered\<close> (stop and limit prices, flags) is the component
  \<open>trig\<close> of an arbitrary type.
\<close>

record 't order =
  order_id :: nat
  asset :: string
  amount :: pynum
  open_amount :: pynum
  trig :: 't

text \<open>
  The two operations of \<^verbatim>\<open>Order\<close> the engine uses: \<^verbatim>\<open>check_triggers(price, dt)\<close>, which
  updates the trigger state or raises, and the attribute \<^verbatim>\<open>triggered\<close>.
\<close>

record 't order_class =
  check_triggers :: "pynum \<Rightarrow> nat \<Rightarrow> 't \<Rightarrow> exn + 't"
  triggered :: "'t \<Rightarrow> bool"

text \<open>\<^verbatim>\<open>Transaction(asset=, amount=, dt=, price=, order_id=)\<close>.\<close>

record transaction =
  tx_asset :: string
  tx_amount :: pynum
  tx_dt :: nat
  tx_price :: pynum
  tx_order_id :: nat

text \<open>
  The market-data object \<^verbatim>\<open>data\<close>: \<^verbatim>\<open>data.current(asset, field)\<close> returns a number or
  raises, \<^verbatim>\<open>data.current_dt\<close> is the timestamp of the bar.
\<close>

record bar_data =
  current :: "string \<Rightarrow> string \<Rightarrow> exn + pynum"
  current_dt :: nat

text \<open>\<^verbatim>\<open>TradingPairFeeSchedule\<close>: the two rates set by \<^verbatim>\<open>__init__\<close>.\<close>

record fee_schedule =
  maker_fee :: pynum
  taker_fee :: pynum

definition DEFAULT_SLIPPAGE_SPREAD :: pynum where
  "DEFAULT_SLIPPAGE_SPREAD = PFloat (2 / 100)"

definition DEFAULT_MAKER_FEE :: pynum where
  "DEFAULT_MAKER_FEE = PFloat (1 / 1000)"

definition DEFAULT_TAKER_FEE :: pynum where
  "DEFAULT_TAKER_FEE = PFloat (2 / 1000)"

text \<open>
  The mutable state of one run: the fields \<^verbatim>\<open>spread\<close> and \<^verbatim>\<open>_volume_for_bar\<close> of the
  \<^verbatim>\<open>TradingPairFixedSlippage\<close> object, and the log of the calls made to
  \<^verbatim>\<open>data.current\<close>, in order, each with its two arguments.
\<close>

record sim_state =
  spread :: pynum
  volume_for_bar :: pynum
  accessed :: "(string \<times> string) list"

text \<open>
  How a run of the generator \<^verbatim>\<open>simulate\<close> ended, seen by a caller that consumes it to
  the end: the body returned (\<open>Finished\<close>), the loop was left by the \<^verbatim>\<open>break\<close> of the
  \<^verbatim>\<open>except LiquidityExceeded\<close> clause (\<open>Broke\<close>), or an exception left the generator
  (\<open>Raised\<close>).
\<close>

datatype outcome = Finished | Broke | Raised exn

text \<open>
  The result of a run: the pairs yielded, in order; the orders of the list as the run
  left them (\<^verbatim>\<open>check_triggers\<close> mutates an order in place); the final state; the outcome.
\<close>

record 't sim_result =
  yielded :: "('t order \<times> transaction) list"
  orders_after :: "'t order list"
  final :: sim_state
  outcome :: outcome

section \<open>The commission model\<close>

text \<open>
  \<^verbatim>\<open>TradingPairFeeSchedule.calculate\<close>:
  \<^verbatim>\<open>cost = abs(transaction.amount) * transaction.price; fee = cost * self.taker_fee\<close>.
\<close>

definition calculate :: "fee_schedule \<Rightarrow> 't order \<Rightarrow> transaction \<Rightarrow> pynum" where
  "calculate self ord txn =
     (let cost = py_mul (py_abs (tx_amount txn)) (tx_price txn);
          fee = py_mul cost (taker_fee self)
      in fee)"

section \<open>The slippage model\<close>

text \<open>A call \<^verbatim>\<open>data.current(a, f)\<close>: the value or exception, and the call logged.\<close>

definition data_current ::
  "bar_data \<Rightarrow> string \<Rightarrow> string \<Rightarrow> sim_state \<Rightarrow> (exn + pynum) \<times> sim_state" where
  "data_current d a f s = (current d a f, s\<lparr>accessed := accessed s @ [(a, f)]\<rparr>)"

text \<open>
  \<^verbatim>\<open>TradingPairFixedSlippage.process_order\<close>. It reads the close price of the order's
  asset, multiplies it by \<^verbatim>\<open>1 + self.spread\<close> for a positive amount and combines it with
  \<^verbatim>\<open>1 - self.spread\<close> by \<^verbatim>\<open>&\<close> otherwise, and returns the pair of that price and
  \<^verbatim>\<open>order.amount\<close>. The returned price is never \<^verbatim>\<open>None\<close>; the option type is there for
  the test \<^verbatim>\<open>execution_price is not None\<close> of the caller.
\<close>

definition process_order ::
  "bar_data \<Rightarrow> 't order \<Rightarrow> sim_state \<Rightarrow> (exn + (pynum option \<times> pynum)) \<times> sim_state" where
  "process_order d ord s =
     (case data_current d (asset ord) ''close'' s of
        (Inl e, s') \<Rightarrow> (Inl e, s')
      | (Inr price, s') \<Rightarrow>
          if py_gt0 (amount ord)
          then (Inr (Some (py_mul price (py_add (PInt 1) (spread s'))), amount ord), s')
          else (case py_and price (py_sub (PInt 1) (spread s')) of
                  Inl e \<Rightarrow> (Inl e, s')
                | Inr adj_price \<Rightarrow> (Inr (Some adj_price, amount ord), s')))"

text \<open>Bookkeeping of a result: an order left behind in the list, a pair yielded.\<close>

definition keep :: "'t order \<Rightarrow> 't sim_result \<Rightarrow> 't sim_result" where
  "keep ord r = r\<lparr>orders_after := ord # orders_after r\<rparr>"

definition emit :: "'t order \<times> transaction \<Rightarrow> 't sim_result \<Rightarrow> 't sim_result" where
  "emit p r = r\<lparr>yielded := p # yielded r\<rparr>"

definition stop :: "'t order list \<Rightarrow> sim_state \<Rightarrow> outcome \<Rightarrow> 't sim_result" where
  "stop ords s oc = \<lparr>yielded = [], orders_after = ords, final = s, outcome = oc\<rparr>"

text \<open>
  The \<^verbatim>\<open>for order in orders_for_asset\<close> loop of \<^verbatim>\<open>simulate\<close>, with the reference price
  and timestamp read before it. An exception of \<^verbatim>\<open>check_triggers\<close> is outside the
  \<^verbatim>\<open>try\<close> and leaves the generator; inside the \<^verbatim>\<open>try\<close>, \<^verbatim>\<open>LiquidityExceeded\<close> breaks
  the loop and any other exception leaves the generator. A \<^verbatim>\<open>Transaction\<close> object is
  truthy, so \<^verbatim>\<open>if transaction:\<close> holds exactly when one was built.
\<close>

fun sim_loop ::
  "bar_data \<Rightarrow> 't order_class \<Rightarrow> pynum \<Rightarrow> nat \<Rightarrow> 't order list \<Rightarrow> sim_state \<Rightarrow> 't sim_result" where
  "sim_loop d cls price dt [] s = stop [] s Finished"
| "sim_loop d cls price dt (ord # rest) s =
     (if py_eq0 (open_amount ord) then keep ord (sim_loop d cls price dt rest s)
      else
        (case check_triggers cls price dt (trig ord) of
           Inl e \<Rightarrow> stop (ord # rest) s (Raised e)
         | Inr t \<Rightarrow>
             (let ord' = ord\<lparr>trig := t\<rparr> in
              if \<not> triggered cls t then keep ord' (sim_loop d cls price dt rest s)
              else
                (case process_order d ord' s of
                   (Inl e, s') \<Rightarrow>
                     stop (ord' # rest) s' (if e = LiquidityExceeded then Broke else Raised e)
                 | (Inr (execution_price, execution_volume), s') \<Rightarrow>
                     (case execution_price of
                        None \<Rightarrow> keep ord' (sim_loop d cls price dt rest s')
                      | Some p \<Rightarrow>
                          (let txn = \<lparr>tx_asset = asset ord',
                                      tx_amount = py_abs execution_volume,
                                      tx_dt = current_dt d,
                                      tx_price = p,
                                      tx_order_id = order_id ord'\<rparr>;
                               s'' = s'\<lparr>volume_for_bar :=
                                          py_add (volume_for_bar s') (py_abs (tx_amount txn))\<rparr>
                           in emit (ord', txn)
                                (keep ord' (sim_loop d cls price dt rest s''))))))))"

text \<open>
  \<^verbatim>\<open>TradingPairFixedSlippage.simulate\<close>, consumed to its end: the accumulator is reset,
  the volume is read and a zero volume returns at once, the close price and the
  timestamp are read, and the loop runs.
\<close>

definition simulate ::
  "bar_data \<Rightarrow> 't order_class \<Rightarrow> string \<Rightarrow> 't order list \<Rightarrow> sim_state \<Rightarrow> 't sim_result" where
  "simulate d cls a orders_for_asset s0 =
     (case data_current d a ''volume'' (s0\<lparr>volume_for_bar := PInt 0\<rparr>) of
        (Inl e, s1) \<Rightarrow> stop orders_for_asset s1 (Raised e)
      | (Inr volume, s1) \<Rightarrow>
          if py_eq0 volume then stop orders_for_asset s1 Finished
          else
            (case data_current d a ''close'' s1 of
               (Inl e, s2) \<Rightarrow> stop orders_for_asset s2 (Raised e)
             | (Inr price, s2) \<Rightarrow> sim_loop d cls price (current_dt d) orders_for_asset s2))"

section \<open>Scenario inputs\<close>

text \<open>
  Concrete collaborators for the closed statements below. Orders without stop or limit:
  the trigger state is the flag itself and checking leaves it as it is.
\<close>

definition market_orders :: "bool order_class" where
  "market_orders = \<lparr>check_triggers = (\<lambda>price dt t. Inr t), triggered = (\<lambda>t. t)\<rparr>"

definition market_order :: "nat \<Rightarrow> string \<Rightarrow> pynum \<Rightarrow> pynum \<Rightarrow> bool order" where
  "market_order i a amt opn =
     \<lparr>order_id = i, asset = a, amount = amt, open_amount = opn, trig = True\<rparr>"

text \<open>
  A bar with volume \<open>v\<close> and close \<open>c\<close> for every pair but one: reading the close of
  \<^verbatim>\<open>eth_usd\<close> raises the liquidity signal. Any other field is unknown to the accessor.
\<close>

definition bar :: "pynum \<Rightarrow> pynum \<Rightarrow> bar_data" where
  "bar v c =
     \<lparr>current = (\<lambda>a f. if f = ''volume'' then Inr v
                        else if f = ''close''
                             then (if a = ''eth_usd'' then Inl LiquidityExceeded else Inr c)
                             else Inl (OtherError ''field'')),
      current_dt = 7\<rparr>"

text \<open>A slippage model as \<^verbatim>\<open>__init__\<close> leaves it, before any call of the accessor.\<close>

definition new_model :: "pynum \<Rightarrow> sim_state" where
  "new_model sp = \<lparr>spread = sp, volume_for_bar = PInt 0, accessed = []\<rparr>"

section \<open>Arithmetic of Python numbers\<close>

lemma num_val_py_add: "num_val (py_add x y) = num_val x + num_val y"
  by (cases x; cases y) simp_all

lemma num_val_py_mul: "num_val (py_mul x y) = num_val x * num_val y"
  by (cases x; cases y) simp_all

lemma num_val_py_abs: "num_val (py_abs x) = \<bar>num_val x\<bar>"
  by (cases x) simp_all

lemma py_abs_idem: "py_abs (py_abs x) = py_abs x"
  by (cases x) simp_all

section \<open>One call of \<open>process_order\<close>\<close>

lemma process_order_Inr:
  assumes "process_order d ord s = (Inr (ep, ev), s')"
  shows "ev = amount ord \<and> ep \<noteq> None
         \<and> s' = s\<lparr>accessed := accessed s @ [(asset ord, ''close'')]\<rparr>"
  using assms
  by (auto simp: process_order_def data_current_def split: sum.splits if_splits)

lemma process_order_Inl:
  assumes "process_order d ord s = (Inl e, s')"
  shows "s' = s\<lparr>accessed := accessed s @ [(asset ord, ''close'')]\<rparr>"
  using assms
  by (auto simp: process_order_def data_current_def split: sum.splits if_splits)

lemma process_order_fst_cong:
  "spread s = spread s' \<Longrightarrow> fst (process_order d ord s) = fst (process_order d ord s')"
  by (simp add: process_order_def data_current_def split: sum.splits)

section \<open>One iteration of the loop\<close>

lemma yielded_keep [simp]: "yielded (keep ord r) = yielded r"
  and orders_after_keep [simp]: "orders_after (keep ord r) = ord # orders_after r"
  and final_keep [simp]: "final (keep ord r) = final r"
  and outcome_keep [simp]: "outcome (keep ord r) = outcome r"
  by (simp_all add: keep_def)

lemma yielded_emit [simp]: "yielded (emit p r) = p # yielded r"
  and orders_after_emit [simp]: "orders_after (emit p r) = orders_after r"
  and final_emit [simp]: "final (emit p r) = final r"
  and outcome_emit [simp]: "outcome (emit p r) = outcome r"
  by (simp_all add: emit_def)

lemma yielded_stop [simp]: "yielded (stop os s oc) = []"
  and orders_after_stop [simp]: "orders_after (stop os s oc) = os"
  and final_stop [simp]: "final (stop os s oc) = s"
  and outcome_stop [simp]: "outcome (stop os s oc) = oc"
  by (simp_all add: stop_def)

text \<open>
  An iteration goes one of five ways: the order has nothing open; its trigger check
  raises; it is not triggered; \<open>process_order\<close> raises; a transaction is built.
\<close>

lemma sim_loop_zero:
  "py_eq0 (open_amount ord) \<Longrightarrow>
     sim_loop d cls price dt (ord # rest) s = keep ord (sim_loop d cls price dt rest s)"
  by simp

lemma sim_loop_check_raised:
  "\<not> py_eq0 (open_amount ord) \<Longrightarrow> check_triggers cls price dt (trig ord) = Inl e \<Longrightarrow>
     sim_loop d cls price dt (ord # rest) s = stop (ord # rest) s (Raised e)"
  by simp

lemma sim_loop_untriggered:
  "\<not> py_eq0 (open_amount ord) \<Longrightarrow> check_triggers cls price dt (trig ord) = Inr t \<Longrightarrow>
   \<not> triggered cls t \<Longrightarrow>
     sim_loop d cls price dt (ord # rest) s
       = keep (ord\<lparr>trig := t\<rparr>) (sim_loop d cls price dt rest s)"
  by simp

lemma sim_loop_process_raised:
  "\<not> py_eq0 (open_amount ord) \<Longrightarrow> check_triggers cls price dt (trig ord) = Inr t \<Longrightarrow>
   triggered cls t \<Longrightarrow> process_order d (ord\<lparr>trig := t\<rparr>) s = (Inl e, s') \<Longrightarrow>
     sim_loop d cls price dt (ord # rest) s
       = stop (ord\<lparr>trig := t\<rparr> # rest) s' (if e = LiquidityExceeded then Broke else Raised e)"
  by simp

lemma sim_loop_filled:
  "\<not> py_eq0 (open_amount ord) \<Longrightarrow> check_triggers cls price dt (trig ord) = Inr t \<Longrightarrow>
   triggered cls t \<Longrightarrow> process_order d (ord\<lparr>trig := t\<rparr>) s = (Inr (Some p, v), s') \<Longrightarrow>
     sim_loop d cls price dt (ord # rest) s
       = emit (ord\<lparr>trig := t\<rparr>,
               \<lparr>tx_asset = asset ord, tx_amount = py_abs v, tx_dt = current_dt d,
                tx_price = p, tx_order_id = order_id ord\<rparr>)
           (keep (ord\<lparr>trig := t\<rparr>)
              (sim_loop d cls price dt rest
                 (s'\<lparr>volume_for_bar := py_add (volume_for_bar s') (py_abs (py_abs v))\<rparr>)))"
  by (simp add: Let_def)

lemmas sim_loop_steps = sim_loop_zero sim_loop_check_raised sim_loop_untriggered
  sim_loop_process_raised sim_loop_filled

lemma sim_loop_cases:
  obtains (zero) "py_eq0 (open_amount ord)"
  | (check_raised) e where "\<not> py_eq0 (open_amount ord)"
      "check_triggers cls price dt (trig ord) = Inl e"
  | (untriggered) t where "\<not> py_eq0 (open_amount ord)"
      "check_triggers cls price dt (trig ord) = Inr t" "\<not> triggered cls t"
  | (process_raised) t e where "\<not> py_eq0 (open_amount ord)"
      "check_triggers cls price dt (trig ord) = Inr t" "triggered cls t"
      "process_order d (ord\<lparr>trig := t\<rparr>) s
         = (Inl e, s\<lparr>accessed := accessed s @ [(asset ord, ''close'')]\<rparr>)"
  | (filled) t p where "\<not> py_eq0 (open_amount ord)"
      "check_triggers cls price dt (trig ord) = Inr t" "triggered cls t"
      "process_order d (ord\<lparr>trig := t\<rparr>) s
         = (Inr (Some p, amount ord), s\<lparr>accessed := accessed s @ [(asset ord, ''close'')]\<rparr>)"
proof (cases "py_eq0 (open_amount ord)")
  case True
  then show ?thesis by (rule zero)
next
  case nz: False
  show ?thesis
  proof (cases "check_triggers cls price dt (trig ord)")
    case (Inl e)
    with nz show ?thesis by (rule check_raised)
  next
    case chk: (Inr t)
    show ?thesis
    proof (cases "triggered cls t")
      case False
      with nz chk show ?thesis by (rule untriggered)
    next
      case tr: True
      obtain res s' where po: "process_order d (ord\<lparr>trig := t\<rparr>) s = (res, s')"
        by (cases "process_order d (ord\<lparr>trig := t\<rparr>) s")
      show ?thesis
      proof (cases res)
        case (Inl e)
        with po process_order_Inl [of d "ord\<lparr>trig := t\<rparr>" s e s'] nz chk tr show ?thesis
          by (intro process_raised [of t e]) simp_all
      next
        case (Inr pv)
        obtain ep ev where pv: "pv = (ep, ev)" by (cases pv)
        from po Inr pv process_order_Inr [of d "ord\<lparr>trig := t\<rparr>" s ep ev s']
        have "ev = amount ord" "ep \<noteq> None"
          "s' = s\<lparr>accessed := accessed s @ [(asset ord, ''close'')]\<rparr>"
          by simp_all
        then obtain p where "process_order d (ord\<lparr>trig := t\<rparr>) s
            = (Inr (Some p, amount ord), s\<lparr>accessed := accessed s @ [(asset ord, ''close'')]\<rparr>)"
          using po Inr pv by auto
        with nz chk tr show ?thesis
          by (intro filled [of t p]) simp_all
      qed
    qed
  qed
qed

declare sim_loop.simps(2) [simp del]

section \<open>The loop as a whole\<close>

text \<open>
  Running the loop over two lists in a row: when the first part finishes, the second
  continues from its state; when it stops early, the second part stays untouched.
\<close>

lemma sim_loop_append:
  "sim_loop d cls price dt (pre @ post) s =
     (let r1 = sim_loop d cls price dt pre s in
      if outcome r1 = Finished
      then (let r2 = sim_loop d cls price dt post (final r1) in
            \<lparr>yielded = yielded r1 @ yielded r2,
             orders_after = orders_after r1 @ orders_after r2,
             final = final r2, outcome = outcome r2\<rparr>)
      else r1\<lparr>orders_after := orders_after r1 @ post\<rparr>)"
proof (induction pre arbitrary: s)
  case Nil
  show ?case by (simp add: Let_def)
next
  case (Cons ord rest)
  show ?case
  proof (cases rule: sim_loop_cases
      [where ord = ord and cls = cls and price = price and dt = dt and d = d and s = s])
    case zero
    then show ?thesis
      by (simp add: sim_loop_zero Cons.IH Let_def keep_def)
  next
    case (check_raised e)
    then show ?thesis
      by (simp add: sim_loop_check_raised stop_def)
  next
    case (untriggered t)
    then show ?thesis
      by (simp add: sim_loop_untriggered Cons.IH Let_def keep_def)
  next
    case (process_raised t e)
    then show ?thesis
      by (simp add: sim_loop_process_raised stop_def)
  next
    case (filled t p)
    then show ?thesis
      by (simp add: sim_loop_filled Cons.IH Let_def keep_def emit_def)
  qed
qed

text \<open>What every yielded pair looks like.\<close>

lemma sim_loop_yielded:
  "(ord, txn) \<in> set (yielded (sim_loop d cls price dt ords s)) \<Longrightarrow>
     tx_amount txn = py_abs (amount ord) \<and> tx_order_id txn = order_id ord \<and>
     tx_asset txn = asset ord \<and> tx_dt txn = current_dt d \<and>
     \<not> py_eq0 (open_amount ord) \<and> triggered cls (trig ord) \<and>
     fst (process_order d ord s) = Inr (Some (tx_price txn), amount ord)"
proof (induction ords arbitrary: s)
  case Nil
  then show ?case by simp
next
  case (Cons o1 rest)
  show ?case
  proof (cases rule: sim_loop_cases
      [where ord = o1 and cls = cls and price = price and dt = dt and d = d and s = s])
    case zero
    with Cons show ?thesis by (simp add: sim_loop_zero)
  next
    case (check_raised e)
    with Cons.prems show ?thesis by (simp add: sim_loop_check_raised)
  next
    case (untriggered t)
    with Cons show ?thesis by (simp add: sim_loop_untriggered)
  next
    case (process_raised t e)
    with Cons.prems show ?thesis by (simp add: sim_loop_process_raised)
  next
    case (filled t p)
    let ?s' = "s\<lparr>accessed := accessed s @ [(asset o1, ''close'')],
                 volume_for_bar := py_add (volume_for_bar s) (py_abs (py_abs (amount o1)))\<rparr>"
    show ?thesis
    proof (cases "(ord, txn) \<in> set (yielded (sim_loop d cls price dt rest ?s'))")
      case True
      from Cons.IH [OF True] show ?thesis
        using process_order_fst_cong [of ?s' s d ord] by simp
    next
      case False
      with Cons.prems filled show ?thesis
        by (auto simp: sim_loop_filled)
    qed
  qed
qed

text \<open>The accumulator grows by the amounts of the transactions yielded.\<close>

lemma sim_loop_volume:
  "num_val (volume_for_bar (final (sim_loop d cls price dt ords s)))
     = num_val (volume_for_bar s)
       + (\<Sum>(ord, txn) \<leftarrow> yielded (sim_loop d cls price dt ords s). num_val (tx_amount txn))"
proof (induction ords arbitrary: s)
  case Nil
  show ?case by simp
next
  case (Cons ord rest)
  show ?case
    by (cases rule: sim_loop_cases
          [where ord = ord and cls = cls and price = price and dt = dt and d = d and s = s])
       (simp_all add: sim_loop_steps Cons.IH num_val_py_add num_val_py_abs)
qed

text \<open>The transactions follow the order of the list, one position each at most.\<close>

lemma sim_loop_subseq:
  "subseq (map (\<lambda>(ord, txn). tx_order_id txn) (yielded (sim_loop d cls price dt ords s)))
          (map order_id ords)"
proof (induction ords arbitrary: s)
  case Nil
  show ?case by simp
next
  case (Cons ord rest)
  show ?case
    by (cases rule: sim_loop_cases
          [where ord = ord and cls = cls and price = price and dt = dt and d = d and s = s])
       (simp_all add: sim_loop_steps Cons.IH list_emb_Cons)
qed

text \<open>The accessor log of the loop: one close read for each pair yielded, and no other
  when the loop finishes.\<close>

lemma sim_loop_accessed:
  "outcome (sim_loop d cls price dt ords s) = Finished \<Longrightarrow>
     accessed (final (sim_loop d cls price dt ords s))
       = accessed s @ map (\<lambda>(ord, txn). (asset ord, ''close''))
                        (yielded (sim_loop d cls price dt ords s))"
proof (induction ords arbitrary: s)
  case Nil
  show ?case by simp
next
  case (Cons ord rest)
  show ?case
    using Cons.prems
    by (cases rule: sim_loop_cases
          [where ord = ord and cls = cls and price = price and dt = dt and d = d and s = s])
       (simp_all add: sim_loop_steps Cons.IH split: if_splits)
qed

lemma sim_loop_accessed_le:
  "length (accessed (final (sim_loop d cls price dt ords s)))
     \<le> length (accessed s) + length ords"
proof (induction ords arbitrary: s)
  case Nil
  show ?case by simp
next
  case (Cons ord rest)
  show ?case
  proof (cases rule: sim_loop_cases
      [where ord = ord and cls = cls and price = price and dt = dt and d = d and s = s])
    case zero
    then show ?thesis using Cons.IH [of s] by (simp add: sim_loop_steps)
  next
    case (check_raised e)
    then show ?thesis by (simp add: sim_loop_steps)
  next
    case (untriggered t)
    then show ?thesis using Cons.IH [of s] by (simp add: sim_loop_steps)
  next
    case (process_raised t e)
    then show ?thesis by (simp add: sim_loop_steps)
  next
    case (filled t p)
    then show ?thesis
      using Cons.IH [of "s\<lparr>accessed := accessed s @ [(asset ord, ''close'')],
               volume_for_bar := py_add (volume_for_bar s) (py_abs (py_abs (amount ord)))\<rparr>"]
      by (simp add: sim_loop_steps)
  qed
qed

text \<open>Every trigger check of the loop receives the price and timestamp given to it.\<close>

lemma sim_loop_reference_price:
  "sim_loop d (cls\<lparr>check_triggers := \<lambda>q t. check_triggers cls price dt\<rparr>) price dt ords s
     = sim_loop d cls price dt ords s"
proof (induction ords arbitrary: s)
  case Nil
  show ?case by simp
next
  case (Cons ord rest)
  show ?case
    by (simp add: sim_loop.simps(2) Cons.IH Let_def
          split: sum.splits prod.splits option.splits)
qed

section \<open>Entering the loop\<close>

lemma simulate_cases:
  obtains (volume_raised) e where "current d a ''volume'' = Inl e"
    "simulate d cls a ords s
       = stop ords (s\<lparr>volume_for_bar := PInt 0, accessed := accessed s @ [(a, ''volume'')]\<rparr>)
           (Raised e)"
  | (no_volume) v where "current d a ''volume'' = Inr v" "py_eq0 v"
    "simulate d cls a ords s
       = stop ords (s\<lparr>volume_for_bar := PInt 0, accessed := accessed s @ [(a, ''volume'')]\<rparr>)
           Finished"
  | (close_raised) v e where "current d a ''volume'' = Inr v" "\<not> py_eq0 v"
    "current d a ''close'' = Inl e"
    "simulate d cls a ords s
       = stop ords (s\<lparr>volume_for_bar := PInt 0,
                      accessed := accessed s @ [(a, ''volume''), (a, ''close'')]\<rparr>)
           (Raised e)"
  | (entered) v price where "current d a ''volume'' = Inr v" "\<not> py_eq0 v"
    "current d a ''close'' = Inr price"
    "simulate d cls a ords s
       = sim_loop d cls price (current_dt d) ords
           (s\<lparr>volume_for_bar := PInt 0,
              accessed := accessed s @ [(a, ''volume''), (a, ''close'')]\<rparr>)"
proof (cases "current d a ''volume''")
  case (Inl e)
  then show ?thesis
    by (intro volume_raised [of e]) (simp_all add: simulate_def data_current_def)
next
  case v: (Inr v)
  show ?thesis
  proof (cases "py_eq0 v")
    case True
    with v show ?thesis
      by (intro no_volume [of v]) (simp_all add: simulate_def data_current_def)
  next
    case nz: False
    show ?thesis
    proof (cases "current d a ''close''")
      case (Inl e)
      with v nz show ?thesis
        by (intro close_raised [of v e]) (simp_all add: simulate_def data_current_def)
    next
      case (Inr price)
      with v nz show ?thesis
        by (intro entered [of v price]) (simp_all add: simulate_def data_current_def)
    qed
  qed
qed

lemma simulate_entered:
  assumes "current d a ''volume'' = Inr v" "\<not> py_eq0 v" "current d a ''close'' = Inr price"
  shows "simulate d cls a ords s
    = sim_loop d cls price (current_dt d) ords
        (s\<lparr>volume_for_bar := PInt 0,
           accessed := accessed s @ [(a, ''volume''), (a, ''close'')]\<rparr>)"
  using assms by (simp add: simulate_def data_current_def)

text \<open>Unfolding a run on concrete inputs.\<close>

lemmas run_defs = simulate_def data_current_def sim_loop.simps process_order_def
  stop_def keep_def emit_def py_eq0_def py_gt0_def Let_def
  market_orders_def market_order_def bar_def new_model_def
  DEFAULT_SLIPPAGE_SPREAD_def

section \<open>Claims\<close>

text \<open>
  C1. The claim: for every close price and every spread in \<open>[0, 1)\<close> the execution
  price is \<open>close * (1 + spread)\<close> for a buy and \<open>close * (1 - spread)\<close> for a sell,
  computed arithmetically and never bitwise. The code combines the sell price with
  \<^verbatim>\<open>&\<close>. On the sell scenario of the specification (spread 0.02, close 100, amount -5)
  \<open>process_order\<close> does not return 98 but raises \<open>TypeError\<close>, which leaves
  \<open>simulate\<close> with nothing yielded; with an int price and an int spread it returns the
  bitwise conjunction (\<open>101 & 1 = 1\<close>) where the claim has \<open>101 * 1\<close>.
\<close>

theorem process_order_sell_bitwise:
  "fst (process_order (bar (PFloat 1000) (PFloat 100))
          (market_order 1 ''btc_usd'' (PInt (- 5)) (PInt (- 5)))
          (new_model DEFAULT_SLIPPAGE_SPREAD)) = Inl TypeError
   \<and> fst (process_order (bar (PFloat 1000) (PFloat 100))
          (market_order 1 ''btc_usd'' (PInt (- 5)) (PInt (- 5)))
          (new_model DEFAULT_SLIPPAGE_SPREAD)) \<noteq> Inr (Some (PFloat 98), PInt (- 5))
   \<and> yielded (simulate (bar (PFloat 1000) (PFloat 100)) market_orders ''btc_usd''
          [market_order 1 ''btc_usd'' (PInt (- 5)) (PInt (- 5))]
          (new_model DEFAULT_SLIPPAGE_SPREAD)) = []
   \<and> outcome (simulate (bar (PFloat 1000) (PFloat 100)) market_orders ''btc_usd''
          [market_order 1 ''btc_usd'' (PInt (- 5)) (PInt (- 5))]
          (new_model DEFAULT_SLIPPAGE_SPREAD)) = Raised TypeError
   \<and> fst (process_order (bar (PInt 1000) (PInt 101))
          (market_order 1 ''btc_usd'' (PInt (- 5)) (PInt (- 5)))
          (new_model (PInt 0))) = Inr (Some (PInt 1), PInt (- 5))"
  by (simp add: run_defs)

text \<open>
  The buy side of the same scenario (spread 0.02, close 100, amount 10) is as the
  specification has it: price 102, volume 10.
\<close>

lemma process_order_buy_scenario:
  "fst (process_order (bar (PFloat 1000) (PFloat 100))
          (market_order 1 ''btc_usd'' (PInt 10) (PInt 10))
          (new_model DEFAULT_SLIPPAGE_SPREAD)) = Inr (Some (PFloat 102), PInt 10)"
  by (simp add: run_defs)

lemma process_order_buy:
  assumes "current d (asset ord) ''close'' = Inr c" and "0 < num_val (amount ord)"
  shows "\<exists>p. fst (process_order d ord s) = Inr (Some p, amount ord)
             \<and> num_val p = num_val c * (1 + num_val (spread s))"
  using assms
  by (simp add: process_order_def data_current_def py_gt0_def num_val_py_mul num_val_py_add)

text \<open>
  C2. The claim: the amounts of the transactions yielded by one call never add up to
  more than the bar's volume. Nothing in \<open>simulate\<close> or \<open>process_order\<close> compares an
  amount with the volume or with the accumulator: on a bar of volume 1 a buy order of
  10 is filled whole.
\<close>

theorem simulate_volume_cap_counterexample:
  "\<not> (\<Sum>(ord, txn) \<leftarrow> yielded (simulate (bar (PFloat 1) (PFloat 100)) market_orders ''btc_usd''
            [market_order 1 ''btc_usd'' (PInt 10) (PInt 10)]
            (new_model DEFAULT_SLIPPAGE_SPREAD)). num_val (tx_amount txn))
       \<le> num_val (PFloat 1)"
  by (simp add: run_defs)

text \<open>
  C2, amended. The amounts of the transactions yielded by one call add up to the final
  value of the accumulator \<^verbatim>\<open>_volume_for_bar\<close>, which is the sum of the absolute requested
  amounts of the orders filled; and once the loop has been left by the liquidity
  signal, the orders that follow are not processed: the run is the run on the orders up
  to there, with the rest left as it was.
\<close>

theorem simulate_volume_accumulated:
  "(\<Sum>(ord, txn) \<leftarrow> yielded (simulate d cls a ords s). num_val (tx_amount txn))
      = num_val (volume_for_bar (final (simulate d cls a ords s)))
   \<and> (\<Sum>(ord, txn) \<leftarrow> yielded (simulate d cls a ords s). num_val (tx_amount txn))
      = (\<Sum>(ord, txn) \<leftarrow> yielded (simulate d cls a ords s). \<bar>num_val (amount ord)\<bar>)
   \<and> (outcome (simulate d cls a pre s) = Broke \<longrightarrow>
        simulate d cls a (pre @ post) s
          = (simulate d cls a pre s)\<lparr>orders_after := orders_after (simulate d cls a pre s) @ post\<rparr>)"
proof (intro conjI impI)
  show "(\<Sum>(ord, txn) \<leftarrow> yielded (simulate d cls a ords s). num_val (tx_amount txn))
      = num_val (volume_for_bar (final (simulate d cls a ords s)))"
    by (cases rule: simulate_cases [where d = d and a = a and cls = cls and ords = ords and s = s])
       (simp_all add: sim_loop_volume)
next
  have "\<forall>p \<in> set (yielded (simulate d cls a ords s)).
          (case p of (ord, txn) \<Rightarrow> num_val (tx_amount txn))
            = (case p of (ord, txn) \<Rightarrow> \<bar>num_val (amount ord)\<bar>)"
    by (cases rule: simulate_cases [where d = d and a = a and cls = cls and ords = ords and s = s])
       (auto dest!: sim_loop_yielded simp: num_val_py_abs)
  then show "(\<Sum>(ord, txn) \<leftarrow> yielded (simulate d cls a ords s). num_val (tx_amount txn))
      = (\<Sum>(ord, txn) \<leftarrow> yielded (simulate d cls a ords s). \<bar>num_val (amount ord)\<bar>)"
    by (intro arg_cong [where f = sum_list] map_cong) auto
next
  assume broke: "outcome (simulate d cls a pre s) = Broke"
  show "simulate d cls a (pre @ post) s
          = (simulate d cls a pre s)\<lparr>orders_after := orders_after (simulate d cls a pre s) @ post\<rparr>"
  proof (cases rule: simulate_cases [where d = d and a = a and cls = cls and ords = pre and s = s])
    case (volume_raised e)
    with broke show ?thesis by simp
  next
    case (no_volume v)
    with broke show ?thesis by simp
  next
    case (close_raised v e)
    with broke show ?thesis by simp
  next
    case (entered v price)
    with broke show ?thesis
      by (simp add: simulate_entered [where ords = "pre @ post"] sim_loop_append Let_def)
  qed
qed

theorem simulate_volume_accumulated_witness:
  "outcome (simulate (bar (PFloat 1000) (PFloat 100)) market_orders ''btc_usd''
      [market_order 1 ''btc_usd'' (PInt 10) (PInt 10),
       market_order 2 ''eth_usd'' (PInt 4) (PInt 4)] (new_model DEFAULT_SLIPPAGE_SPREAD)) = Broke
   \<and> map (\<lambda>(ord, txn). (order_id ord, tx_amount txn))
       (yielded (simulate (bar (PFloat 1000) (PFloat 100)) market_orders ''btc_usd''
         ([market_order 1 ''btc_usd'' (PInt 10) (PInt 10),
           market_order 2 ''eth_usd'' (PInt 4) (PInt 4)]
          @ [market_order 3 ''btc_usd'' (PInt 7) (PInt 7)])
         (new_model DEFAULT_SLIPPAGE_SPREAD))) = [(1, PInt 10)]
   \<and> num_val (volume_for_bar (final (simulate (bar (PFloat 1000) (PFloat 100)) market_orders
         ''btc_usd''
         ([market_order 1 ''btc_usd'' (PInt 10) (PInt 10),
           market_order 2 ''eth_usd'' (PInt 4) (PInt 4)]
          @ [market_order 3 ''btc_usd'' (PInt 7) (PInt 7)])
         (new_model DEFAULT_SLIPPAGE_SPREAD)))) = 10"
proof -
  let ?d = "bar (PFloat 1000) (PFloat 100)"
  let ?pre = "[market_order 1 ''btc_usd'' (PInt 10) (PInt 10),
               market_order 2 ''eth_usd'' (PInt 4) (PInt 4)]"
  let ?post = "[market_order 3 ''btc_usd'' (PInt 7) (PInt 7)]"
  let ?s = "new_model DEFAULT_SLIPPAGE_SPREAD"
  have pre: "simulate ?d market_orders ''btc_usd'' ?pre ?s
     = \<lparr>yielded = [(market_order 1 ''btc_usd'' (PInt 10) (PInt 10),
                     \<lparr>tx_asset = ''btc_usd'', tx_amount = PInt 10, tx_dt = 7,
                      tx_price = PFloat 102, tx_order_id = 1\<rparr>)],
         orders_after = ?pre,
         final = \<lparr>spread = PFloat (2 / 100), volume_for_bar = PInt 10,
                  accessed = [(''btc_usd'', ''volume''), (''btc_usd'', ''close''),
                              (''btc_usd'', ''close''), (''eth_usd'', ''close'')]\<rparr>,
         outcome = Broke\<rparr>"
    by (simp add: run_defs)
  have broke: "outcome (simulate ?d market_orders ''btc_usd'' ?pre ?s) = Broke"
    unfolding pre by simp
  from simulate_volume_accumulated [of ?d market_orders "''btc_usd''" "?pre @ ?post" ?s ?pre ?post]
  have acc: "(\<Sum>(ord, txn) \<leftarrow> yielded (simulate ?d market_orders ''btc_usd'' (?pre @ ?post) ?s).
                 num_val (tx_amount txn))
             = num_val (volume_for_bar (final (simulate ?d market_orders ''btc_usd'' (?pre @ ?post) ?s)))"
    and rest: "simulate ?d market_orders ''btc_usd'' (?pre @ ?post) ?s
          = (simulate ?d market_orders ''btc_usd'' ?pre ?s)
              \<lparr>orders_after := orders_after (simulate ?d market_orders ''btc_usd'' ?pre ?s) @ ?post\<rparr>"
    using broke by blast+
  show ?thesis
    unfolding rest pre by (simp add: market_order_def)
qed

text \<open>
  C3. The claim: \<open>calculate\<close> is total, and a negative or zero transaction amount gives
  a fee of exactly zero. The code takes the absolute value of the amount first, so a
  negative amount is charged like the positive one: amount -5 at price 100 under the
  default taker rate costs 1, not 0.
\<close>

theorem calculate_negative_amount_counterexample:
  "num_val (calculate \<lparr>maker_fee = DEFAULT_MAKER_FEE, taker_fee = DEFAULT_TAKER_FEE\<rparr>
       (market_order 1 ''btc_usd'' (PInt (- 5)) (PInt (- 5)))
       \<lparr>tx_asset = ''btc_usd'', tx_amount = PInt (- 5), tx_dt = 7,
        tx_price = PFloat 100, tx_order_id = 1\<rparr>) = 1
   \<and> num_val (calculate \<lparr>maker_fee = DEFAULT_MAKER_FEE, taker_fee = DEFAULT_TAKER_FEE\<rparr>
       (market_order 1 ''btc_usd'' (PInt (- 5)) (PInt (- 5)))
       \<lparr>tx_asset = ''btc_usd'', tx_amount = PInt (- 5), tx_dt = 7,
        tx_price = PFloat 100, tx_order_id = 1\<rparr>) \<noteq> 0"
  by (simp add: calculate_def DEFAULT_TAKER_FEE_def)

text \<open>
  C3, amended. \<open>calculate\<close> has no raising operation: on numbers it always returns a
  fee. A zero amount gives a zero fee; a negative amount gives the fee of its absolute
  value, \<open>-amount * price * taker_fee\<close>, which is the fee of the same transaction with
  the amount made positive.
\<close>

theorem calculate_degenerate_amount:
  "(num_val (tx_amount txn) = 0 \<longrightarrow> num_val (calculate self ord txn) = 0)
   \<and> (num_val (tx_amount txn) < 0 \<longrightarrow>
        num_val (calculate self ord txn)
          = - num_val (tx_amount txn) * num_val (tx_price txn) * num_val (taker_fee self))
   \<and> calculate self ord (txn\<lparr>tx_amount := py_abs (tx_amount txn)\<rparr>) = calculate self ord txn"
  by (simp add: calculate_def num_val_py_mul num_val_py_abs py_abs_idem)

theorem calculate_degenerate_amount_witness:
  "num_val (tx_amount \<lparr>tx_asset = ''btc_usd'', tx_amount = PFloat 0, tx_dt = 7,
                       tx_price = PFloat 100, tx_order_id = 1\<rparr>) = 0
   \<and> num_val (calculate \<lparr>maker_fee = DEFAULT_MAKER_FEE, taker_fee = DEFAULT_TAKER_FEE\<rparr>
       (market_order 1 ''btc_usd'' (PInt 10) (PInt 10))
       \<lparr>tx_asset = ''btc_usd'', tx_amount = PFloat 0, tx_dt = 7,
        tx_price = PFloat 100, tx_order_id = 1\<rparr>) = 0
   \<and> num_val (tx_amount \<lparr>tx_asset = ''btc_usd'', tx_amount = PInt (- 5), tx_dt = 7,
                       tx_price = PFloat 100, tx_order_id = 1\<rparr>) < 0
   \<and> num_val (calculate \<lparr>maker_fee = DEFAULT_MAKER_FEE, taker_fee = DEFAULT_TAKER_FEE\<rparr>
       (market_order 1 ''btc_usd'' (PInt (- 5)) (PInt (- 5)))
       \<lparr>tx_asset = ''btc_usd'', tx_amount = PInt (- 5), tx_dt = 7,
        tx_price = PFloat 100, tx_order_id = 1\<rparr>) = 5 * 100 * (2 / 1000)"
  using
    calculate_degenerate_amount
      [of "\<lparr>tx_asset = ''btc_usd'', tx_amount = PFloat 0, tx_dt = 7,
            tx_price = PFloat 100, tx_order_id = 1\<rparr>"
          "\<lparr>maker_fee = DEFAULT_MAKER_FEE, taker_fee = DEFAULT_TAKER_FEE\<rparr>"
          "market_order 1 ''btc_usd'' (PInt 10) (PInt 10)"]
    calculate_degenerate_amount
      [of "\<lparr>tx_asset = ''btc_usd'', tx_amount = PInt (- 5), tx_dt = 7,
            tx_price = PFloat 100, tx_order_id = 1\<rparr>"
          "\<lparr>maker_fee = DEFAULT_MAKER_FEE, taker_fee = DEFAULT_TAKER_FEE\<rparr>"
          "market_order 1 ''btc_usd'' (PInt (- 5)) (PInt (- 5))"]
  by (simp add: DEFAULT_TAKER_FEE_def)

text \<open>
  C6. The fee is \<open>abs(amount) * price * taker_fee\<close> for every order and transaction;
  the maker rate has no part in it, whatever its value; a taker rate of zero, int or
  float, gives a fee of zero.
\<close>

theorem calculate_taker_fee:
  "num_val (calculate self ord txn)
      = \<bar>num_val (tx_amount txn)\<bar> * num_val (tx_price txn) * num_val (taker_fee self)
   \<and> calculate (self\<lparr>maker_fee := m\<rparr>) ord txn = calculate self ord txn
   \<and> num_val (calculate (self\<lparr>taker_fee := PInt 0\<rparr>) ord txn) = 0
   \<and> num_val (calculate (self\<lparr>taker_fee := PFloat 0\<rparr>) ord txn) = 0"
  by (simp add: calculate_def num_val_py_mul num_val_py_abs)

text \<open>The fee scenario of the specification: rate 0.002, amount 10, price 102, fee 2.04.\<close>

lemma calculate_scenario:
  "calculate \<lparr>maker_fee = DEFAULT_MAKER_FEE, taker_fee = DEFAULT_TAKER_FEE\<rparr>
     (market_order 1 ''btc_usd'' (PInt 10) (PInt 10))
     \<lparr>tx_asset = ''btc_usd'', tx_amount = PInt 10, tx_dt = 7,
      tx_price = PFloat 102, tx_order_id = 1\<rparr> = PFloat (204 / 100)"
  by (simp add: calculate_def DEFAULT_TAKER_FEE_def)

text \<open>
  C7. On a bar whose volume is zero \<open>simulate\<close> returns at once: nothing is yielded,
  the order list is as it was given, whatever the orders and whatever
  \<open>check_triggers\<close> and \<open>triggered\<close> would do, and the only call of the accessor is the
  one that read the volume.
\<close>

theorem simulate_zero_volume:
  assumes "current d a ''volume'' = Inr v" and "py_eq0 v"
  shows "simulate d cls a ords s
     = \<lparr>yielded = [], orders_after = ords,
         final = s\<lparr>volume_for_bar := PInt 0, accessed := accessed s @ [(a, ''volume'')]\<rparr>,
         outcome = Finished\<rparr>"
  using assms by (simp add: simulate_def data_current_def stop_def)

theorem simulate_zero_volume_witness:
  "current (bar (PInt 0) (PFloat 100)) ''btc_usd'' ''volume'' = Inr (PInt 0)
   \<and> py_eq0 (PInt 0)
   \<and> simulate (bar (PInt 0) (PFloat 100)) market_orders ''btc_usd''
        [market_order 1 ''btc_usd'' (PInt 10) (PInt 10)] (new_model DEFAULT_SLIPPAGE_SPREAD)
     = \<lparr>yielded = [], orders_after = [market_order 1 ''btc_usd'' (PInt 10) (PInt 10)],
         final = (new_model DEFAULT_SLIPPAGE_SPREAD)
                   \<lparr>volume_for_bar := PInt 0,
                    accessed := accessed (new_model DEFAULT_SLIPPAGE_SPREAD)
                                  @ [(''btc_usd'', ''volume'')]\<rparr>,
         outcome = Finished\<rparr>"
proof -
  have h1: "current (bar (PInt 0) (PFloat 100)) ''btc_usd'' ''volume'' = Inr (PInt 0)"
    by (simp add: bar_def)
  have h2: "py_eq0 (PInt 0)"
    by (simp add: py_eq0_def)
  show ?thesis
    using h1 h2 simulate_zero_volume [OF h1 h2, of market_orders
        "[market_order 1 ''btc_usd'' (PInt 10) (PInt 10)]" "new_model DEFAULT_SLIPPAGE_SPREAD"]
    by simp
qed

text \<open>
  C4. The claim: the accessor is consulted at most twice per bar, however many orders
  there are. \<open>process_order\<close> reads the close price again for every order it is given:
  with two buy orders the accessor is called four times.
\<close>

theorem simulate_accessor_calls_counterexample:
  "accessed (final (simulate (bar (PFloat 1000) (PFloat 100)) market_orders ''btc_usd''
       [market_order 1 ''btc_usd'' (PInt 10) (PInt 10),
        market_order 2 ''btc_usd'' (PInt 3) (PInt 3)]
       (new_model DEFAULT_SLIPPAGE_SPREAD)))
     = [(''btc_usd'', ''volume''), (''btc_usd'', ''close''),
        (''btc_usd'', ''close''), (''btc_usd'', ''close'')]
   \<and> \<not> length (accessed (final (simulate (bar (PFloat 1000) (PFloat 100)) market_orders
       ''btc_usd''
       [market_order 1 ''btc_usd'' (PInt 10) (PInt 10),
        market_order 2 ''btc_usd'' (PInt 3) (PInt 3)]
       (new_model DEFAULT_SLIPPAGE_SPREAD)))) \<le> 2"
  by (simp add: run_defs)

text \<open>
  C4, amended. On a bar with volume, a call that runs to the end of the order list
  consults the accessor once for the volume, once for the close price, and once more
  for the close price of each order that is filled; never more than two plus the number
  of orders. The close price read at the start is the price every trigger check
  receives: replacing \<open>check_triggers\<close> by its restriction to that price and the bar's
  timestamp changes nothing.
\<close>

theorem simulate_accessor_calls:
  assumes "current d a ''volume'' = Inr v" and "\<not> py_eq0 v"
    and "current d a ''close'' = Inr price"
    and "outcome (simulate d cls a ords s) = Finished"
  shows "accessed (final (simulate d cls a ords s))
           = accessed s @ [(a, ''volume''), (a, ''close'')]
             @ map (\<lambda>(ord, txn). (asset ord, ''close'')) (yielded (simulate d cls a ords s))
         \<and> length (accessed (final (simulate d cls a ords s)))
             \<le> length (accessed s) + 2 + length ords
         \<and> simulate d (cls\<lparr>check_triggers := \<lambda>q t. check_triggers cls price (current_dt d)\<rparr>)
               a ords s
             = simulate d cls a ords s"
proof -
  let ?s2 = "s\<lparr>volume_for_bar := PInt 0,
               accessed := accessed s @ [(a, ''volume''), (a, ''close'')]\<rparr>"
  have run: "simulate d cls a ords s = sim_loop d cls price (current_dt d) ords ?s2"
    using assms(1-3) by (rule simulate_entered)
  have run': "simulate d (cls\<lparr>check_triggers := \<lambda>q t. check_triggers cls price (current_dt d)\<rparr>)
                a ords s
              = sim_loop d (cls\<lparr>check_triggers := \<lambda>q t. check_triggers cls price (current_dt d)\<rparr>)
                  price (current_dt d) ords ?s2"
    using assms(1-3) by (rule simulate_entered)
  have fin: "outcome (sim_loop d cls price (current_dt d) ords ?s2) = Finished"
    using assms(4) by (simp add: run)
  have "accessed (final (simulate d cls a ords s))
           = accessed s @ [(a, ''volume''), (a, ''close'')]
             @ map (\<lambda>(ord, txn). (asset ord, ''close'')) (yielded (simulate d cls a ords s))"
    unfolding run using sim_loop_accessed [OF fin] by simp
  moreover have "length (accessed (final (simulate d cls a ords s)))
             \<le> length (accessed s) + 2 + length ords"
    unfolding run
    using sim_loop_accessed_le [of d cls price "current_dt d" ords ?s2] by simp
  moreover have "simulate d (cls\<lparr>check_triggers := \<lambda>q t. check_triggers cls price (current_dt d)\<rparr>)
               a ords s
             = simulate d cls a ords s"
    unfolding run run' by (rule sim_loop_reference_price)
  ultimately show ?thesis by blast
qed

theorem simulate_accessor_calls_witness:
  "current (bar (PFloat 1000) (PFloat 100)) ''btc_usd'' ''volume'' = Inr (PFloat 1000)
   \<and> \<not> py_eq0 (PFloat 1000)
   \<and> current (bar (PFloat 1000) (PFloat 100)) ''btc_usd'' ''close'' = Inr (PFloat 100)
   \<and> outcome (simulate (bar (PFloat 1000) (PFloat 100)) market_orders ''btc_usd''
        [market_order 1 ''btc_usd'' (PInt 10) (PInt 10),
         market_order 2 ''btc_usd'' (PInt 3) (PInt 0),
         market_order 3 ''btc_usd'' (PInt 3) (PInt 3)]
        (new_model DEFAULT_SLIPPAGE_SPREAD)) = Finished
   \<and> length (accessed (final (simulate (bar (PFloat 1000) (PFloat 100)) market_orders
        ''btc_usd''
        [market_order 1 ''btc_usd'' (PInt 10) (PInt 10),
         market_order 2 ''btc_usd'' (PInt 3) (PInt 0),
         market_order 3 ''btc_usd'' (PInt 3) (PInt 3)]
        (new_model DEFAULT_SLIPPAGE_SPREAD))))
      = 2 + length (yielded (simulate (bar (PFloat 1000) (PFloat 100)) market_orders
        ''btc_usd''
        [market_order 1 ''btc_usd'' (PInt 10) (PInt 10),
         market_order 2 ''btc_usd'' (PInt 3) (PInt 0),
         market_order 3 ''btc_usd'' (PInt 3) (PInt 3)]
        (new_model DEFAULT_SLIPPAGE_SPREAD)))"
proof -
  let ?d = "bar (PFloat 1000) (PFloat 100)"
  let ?ords = "[market_order 1 ''btc_usd'' (PInt 10) (PInt 10),
                market_order 2 ''btc_usd'' (PInt 3) (PInt 0),
                market_order 3 ''btc_usd'' (PInt 3) (PInt 3)]"
  let ?s = "new_model DEFAULT_SLIPPAGE_SPREAD"
  have h1: "current ?d ''btc_usd'' ''volume'' = Inr (PFloat 1000)"
    by (simp add: bar_def)
  have h2: "\<not> py_eq0 (PFloat 1000)"
    by (simp add: py_eq0_def)
  have h3: "current ?d ''btc_usd'' ''close'' = Inr (PFloat 100)"
    by (simp add: bar_def)
  have h4: "outcome (simulate ?d market_orders ''btc_usd'' ?ords ?s) = Finished"
    by (simp add: run_defs)
  have "accessed ?s = []"
    by (simp add: new_model_def)
  with simulate_accessor_calls [OF h1 h2 h3 h4]
  have "length (accessed (final (simulate ?d market_orders ''btc_usd'' ?ords ?s)))
      = 2 + length (yielded (simulate ?d market_orders ''btc_usd'' ?ords ?s))"
    by simp
  with h1 h2 h3 h4 show ?thesis by blast
qed

text \<open>
  C5. Suppose the loop reaches an order (the bar has volume, the orders before it were
  gone through to the end) that has something open. If its trigger check succeeds, it
  is triggered, and \<open>process_order\<close> raises, then the transactions yielded are exactly
  those of the orders before it, the orders after it are left as they were, and the run
  ends by the \<^verbatim>\<open>break\<close> when the exception is the liquidity signal and by that exception
  leaving the generator when it is any other. If its trigger check raises, which is
  outside the \<^verbatim>\<open>try\<close>, the exception leaves the generator, again with the earlier
  transactions kept.
\<close>

theorem simulate_liquidity_exceeded:
  assumes "current d a ''volume'' = Inr v" and "\<not> py_eq0 v"
    and "current d a ''close'' = Inr price"
    and "outcome (simulate d cls a pre s) = Finished"
    and "\<not> py_eq0 (open_amount ord)"
  shows "(\<forall>t e s'. check_triggers cls price (current_dt d) (trig ord) = Inr t
              \<and> triggered cls t
              \<and> process_order d (ord\<lparr>trig := t\<rparr>) (final (simulate d cls a pre s)) = (Inl e, s')
            \<longrightarrow> simulate d cls a (pre @ ord # post) s
                  = \<lparr>yielded = yielded (simulate d cls a pre s),
                      orders_after = orders_after (simulate d cls a pre s)
                                       @ ord\<lparr>trig := t\<rparr> # post,
                      final = s',
                      outcome = (if e = LiquidityExceeded then Broke else Raised e)\<rparr>)
         \<and> (\<forall>e. check_triggers cls price (current_dt d) (trig ord) = Inl e
            \<longrightarrow> simulate d cls a (pre @ ord # post) s
                  = \<lparr>yielded = yielded (simulate d cls a pre s),
                      orders_after = orders_after (simulate d cls a pre s) @ ord # post,
                      final = final (simulate d cls a pre s),
                      outcome = Raised e\<rparr>)"
proof -
  let ?s2 = "s\<lparr>volume_for_bar := PInt 0,
               accessed := accessed s @ [(a, ''volume''), (a, ''close'')]\<rparr>"
  let ?dt = "current_dt d"
  have run_pre: "simulate d cls a pre s = sim_loop d cls price ?dt pre ?s2"
    using assms(1-3) by (rule simulate_entered)
  have run_all: "simulate d cls a (pre @ ord # post) s
                   = sim_loop d cls price ?dt (pre @ ord # post) ?s2"
    using assms(1-3) by (rule simulate_entered)
  have fin: "outcome (sim_loop d cls price ?dt pre ?s2) = Finished"
    using assms(4) by (simp add: run_pre)
  have split: "sim_loop d cls price ?dt (pre @ ord # post) ?s2
      = \<lparr>yielded = yielded (sim_loop d cls price ?dt pre ?s2)
                     @ yielded (sim_loop d cls price ?dt (ord # post)
                                  (final (sim_loop d cls price ?dt pre ?s2))),
          orders_after = orders_after (sim_loop d cls price ?dt pre ?s2)
                     @ orders_after (sim_loop d cls price ?dt (ord # post)
                                  (final (sim_loop d cls price ?dt pre ?s2))),
          final = final (sim_loop d cls price ?dt (ord # post)
                                  (final (sim_loop d cls price ?dt pre ?s2))),
          outcome = outcome (sim_loop d cls price ?dt (ord # post)
                                  (final (sim_loop d cls price ?dt pre ?s2)))\<rparr>"
    using fin by (simp add: sim_loop_append Let_def)
  show ?thesis
    unfolding run_all run_pre split
    using assms(5)
    by (auto simp: sim_loop_process_raised sim_loop_check_raised)
qed

theorem simulate_liquidity_exceeded_witness:
  "current (bar (PFloat 1000) (PFloat 100)) ''btc_usd'' ''volume'' = Inr (PFloat 1000)
   \<and> \<not> py_eq0 (PFloat 1000)
   \<and> current (bar (PFloat 1000) (PFloat 100)) ''btc_usd'' ''close'' = Inr (PFloat 100)
   \<and> outcome (simulate (bar (PFloat 1000) (PFloat 100)) market_orders ''btc_usd''
        [market_order 1 ''btc_usd'' (PInt 10) (PInt 10)]
        (new_model DEFAULT_SLIPPAGE_SPREAD)) = Finished
   \<and> \<not> py_eq0 (open_amount (market_order 2 ''eth_usd'' (PInt 4) (PInt 4)))
   \<and> fst (process_order (bar (PFloat 1000) (PFloat 100))
        (market_order 2 ''eth_usd'' (PInt 4) (PInt 4))
        (final (simulate (bar (PFloat 1000) (PFloat 100)) market_orders ''btc_usd''
           [market_order 1 ''btc_usd'' (PInt 10) (PInt 10)]
           (new_model DEFAULT_SLIPPAGE_SPREAD)))) = Inl LiquidityExceeded
   \<and> outcome (simulate (bar (PFloat 1000) (PFloat 100)) market_orders ''btc_usd''
        ([market_order 1 ''btc_usd'' (PInt 10) (PInt 10)]
         @ market_order 2 ''eth_usd'' (PInt 4) (PInt 4)
         # [market_order 3 ''btc_usd'' (PInt 7) (PInt 7)])
        (new_model DEFAULT_SLIPPAGE_SPREAD)) = Broke
   \<and> yielded (simulate (bar (PFloat 1000) (PFloat 100)) market_orders ''btc_usd''
        ([market_order 1 ''btc_usd'' (PInt 10) (PInt 10)]
         @ market_order 2 ''eth_usd'' (PInt 4) (PInt 4)
         # [market_order 3 ''btc_usd'' (PInt 7) (PInt 7)])
        (new_model DEFAULT_SLIPPAGE_SPREAD))
      = yielded (simulate (bar (PFloat 1000) (PFloat 100)) market_orders ''btc_usd''
        [market_order 1 ''btc_usd'' (PInt 10) (PInt 10)]
        (new_model DEFAULT_SLIPPAGE_SPREAD))
   \<and> fst (process_order (bar (PFloat 1000) (PFloat 100))
        (market_order 4 ''btc_usd'' (PInt (- 5)) (PInt (- 5)))
        (final (simulate (bar (PFloat 1000) (PFloat 100)) market_orders ''btc_usd''
           [market_order 1 ''btc_usd'' (PInt 10) (PInt 10)]
           (new_model DEFAULT_SLIPPAGE_SPREAD)))) = Inl TypeError
   \<and> outcome (simulate (bar (PFloat 1000) (PFloat 100)) market_orders ''btc_usd''
        ([market_order 1 ''btc_usd'' (PInt 10) (PInt 10)]
         @ market_order 4 ''btc_usd'' (PInt (- 5)) (PInt (- 5))
         # [market_order 3 ''btc_usd'' (PInt 7) (PInt 7)])
        (new_model DEFAULT_SLIPPAGE_SPREAD)) = Raised TypeError"
proof -
  let ?d = "bar (PFloat 1000) (PFloat 100)"
  let ?pre = "[market_order 1 ''btc_usd'' (PInt 10) (PInt 10)]"
  let ?eth = "market_order 2 ''eth_usd'' (PInt 4) (PInt 4)"
  let ?sell = "market_order 4 ''btc_usd'' (PInt (- 5)) (PInt (- 5))"
  let ?post = "[market_order 3 ''btc_usd'' (PInt 7) (PInt 7)]"
  let ?s = "new_model DEFAULT_SLIPPAGE_SPREAD"
  let ?r = "simulate ?d market_orders ''btc_usd'' ?pre ?s"
  have h1: "current ?d ''btc_usd'' ''volume'' = Inr (PFloat 1000)"
    by (simp add: bar_def)
  have h2: "\<not> py_eq0 (PFloat 1000)"
    by (simp add: py_eq0_def)
  have h3: "current ?d ''btc_usd'' ''close'' = Inr (PFloat 100)"
    by (simp add: bar_def)
  have h4: "outcome ?r = Finished"
    by (simp add: run_defs)
  have h5: "\<not> py_eq0 (open_amount ?eth)"
    by (simp add: py_eq0_def market_order_def)
  have h5': "\<not> py_eq0 (open_amount ?sell)"
    by (simp add: py_eq0_def market_order_def)
  have chk: "check_triggers market_orders (PFloat 100) (current_dt ?d) (trig ?eth) = Inr True"
    and chk': "check_triggers market_orders (PFloat 100) (current_dt ?d) (trig ?sell) = Inr True"
    and tr: "triggered market_orders True"
    by (simp_all add: market_orders_def market_order_def)
  have same: "?eth\<lparr>trig := True\<rparr> = ?eth" "?sell\<lparr>trig := True\<rparr> = ?sell"
    by (simp_all add: market_order_def)
  have po: "fst (process_order ?d ?eth (final ?r)) = Inl LiquidityExceeded"
    by (simp add: process_order_def data_current_def bar_def market_order_def)
  have po': "fst (process_order ?d ?sell (final ?r)) = Inl TypeError"
    by (simp add: run_defs)
  obtain s1 where po1: "process_order ?d (?eth\<lparr>trig := True\<rparr>) (final ?r) = (Inl LiquidityExceeded, s1)"
    using po unfolding same by (cases "process_order ?d ?eth (final ?r)") simp
  obtain s2 where po2: "process_order ?d (?sell\<lparr>trig := True\<rparr>) (final ?r) = (Inl TypeError, s2)"
    using po' unfolding same by (cases "process_order ?d ?sell (final ?r)") simp
  from simulate_liquidity_exceeded [OF h1 h2 h3 h4 h5, of ?post] chk tr po1
  have e1: "simulate ?d market_orders ''btc_usd'' (?pre @ ?eth # ?post) ?s
      = \<lparr>yielded = yielded ?r, orders_after = orders_after ?r @ ?eth\<lparr>trig := True\<rparr> # ?post,
          final = s1, outcome = (if LiquidityExceeded = LiquidityExceeded then Broke
                                 else Raised LiquidityExceeded)\<rparr>"
    by blast
  from simulate_liquidity_exceeded [OF h1 h2 h3 h4 h5', of ?post] chk' tr po2
  have e2: "simulate ?d market_orders ''btc_usd'' (?pre @ ?sell # ?post) ?s
      = \<lparr>yielded = yielded ?r, orders_after = orders_after ?r @ ?sell\<lparr>trig := True\<rparr> # ?post,
          final = s2, outcome = (if TypeError = LiquidityExceeded then Broke
                                 else Raised TypeError)\<rparr>"
    by blast
  have c1: "outcome (simulate ?d market_orders ''btc_usd'' (?pre @ ?eth # ?post) ?s) = Broke"
    and c2: "yielded (simulate ?d market_orders ''btc_usd'' (?pre @ ?eth # ?post) ?s) = yielded ?r"
    unfolding e1 by simp_all
  have c3: "outcome (simulate ?d market_orders ''btc_usd'' (?pre @ ?sell # ?post) ?s)
              = Raised TypeError"
    unfolding e2 by simp
  from h1 h2 h3 h4 h5 po c1 c2 po' c3 show ?thesis by blast
qed

text \<open>
  C8. The claim: at most one transaction per order per call, and every transaction
  yielded has an amount strictly greater than zero. The first half holds. The loop
  passes over an order by its open amount, not by its requested amount, and the
  transaction gets the absolute value of the requested amount: an order with requested
  amount 0 and open amount 3, on a bar with an int close price under an int spread,
  yields a transaction of amount 0.
\<close>

theorem simulate_positive_amount_counterexample:
  "yielded (simulate (bar (PInt 1000) (PInt 100)) market_orders ''btc_usd''
        [market_order 1 ''btc_usd'' (PInt 0) (PInt 3)] (new_model (PInt 0)))
     = [(market_order 1 ''btc_usd'' (PInt 0) (PInt 3),
         \<lparr>tx_asset = ''btc_usd'', tx_amount = PInt 0, tx_dt = 7,
          tx_price = PInt 0, tx_order_id = 1\<rparr>)]
   \<and> \<not> 0 < num_val (tx_amount \<lparr>tx_asset = ''btc_usd'', tx_amount = PInt 0, tx_dt = 7,
                                 tx_price = PInt 0, tx_order_id = 1\<rparr>)"
  by (simp add: run_defs)

text \<open>
  C8, amended. The order identifiers of the transactions yielded, in the order yielded,
  are a subsequence of the identifiers of the order list: each position of the list
  gives one transaction at most, so there are no more transactions than orders. Each
  transaction carries the identifier of its order, and its amount is the absolute value
  of the order's requested amount, the sign dropped: never negative, and strictly
  positive whenever the requested amount is not zero.
\<close>

theorem simulate_one_positive_transaction:
  "subseq (map (\<lambda>(ord, txn). tx_order_id txn) (yielded (simulate d cls a ords s)))
          (map order_id ords)
   \<and> length (yielded (simulate d cls a ords s)) \<le> length ords
   \<and> (\<forall>(ord, txn) \<in> set (yielded (simulate d cls a ords s)).
         tx_order_id txn = order_id ord
         \<and> num_val (tx_amount txn) = \<bar>num_val (amount ord)\<bar>
         \<and> 0 \<le> num_val (tx_amount txn)
         \<and> (num_val (amount ord) \<noteq> 0 \<longrightarrow> 0 < num_val (tx_amount txn)))"
proof -
  have sub: "subseq (map (\<lambda>(ord, txn). tx_order_id txn) (yielded (simulate d cls a ords s)))
                    (map order_id ords)"
    by (cases rule: simulate_cases [where d = d and a = a and cls = cls and ords = ords and s = s])
       (simp_all add: sim_loop_subseq)
  from list_emb_length [OF sub]
  have len: "length (yielded (simulate d cls a ords s)) \<le> length ords"
    by simp
  have each: "\<forall>(ord, txn) \<in> set (yielded (simulate d cls a ords s)).
         tx_order_id txn = order_id ord
         \<and> num_val (tx_amount txn) = \<bar>num_val (amount ord)\<bar>
         \<and> 0 \<le> num_val (tx_amount txn)
         \<and> (num_val (amount ord) \<noteq> 0 \<longrightarrow> 0 < num_val (tx_amount txn))"
    by (cases rule: simulate_cases [where d = d and a = a and cls = cls and ords = ords and s = s])
       (auto dest!: sim_loop_yielded simp: num_val_py_abs)
  from sub len each show ?thesis by blast
qed

text \<open>
  A buy of 10 and a sell of 5 on a bar with int close 101 under int spread 0, where the
  sell branch returns a price: the transactions have the amounts 10 and 5.
\<close>

theorem simulate_one_positive_transaction_witness:
  "yielded (simulate (bar (PInt 1000) (PInt 101)) market_orders ''btc_usd''
        [market_order 1 ''btc_usd'' (PInt 10) (PInt 10),
         market_order 2 ''btc_usd'' (PInt (- 5)) (PInt (- 5))]
        (new_model (PInt 0)))
     = [(market_order 1 ''btc_usd'' (PInt 10) (PInt 10),
         \<lparr>tx_asset = ''btc_usd'', tx_amount = PInt 10, tx_dt = 7,
          tx_price = PInt 101, tx_order_id = 1\<rparr>),
        (market_order 2 ''btc_usd'' (PInt (- 5)) (PInt (- 5)),
         \<lparr>tx_asset = ''btc_usd'', tx_amount = PInt 5, tx_dt = 7,
          tx_price = PInt 1, tx_order_id = 2\<rparr>)]
   \<and> num_val (amount (market_order 1 ''btc_usd'' (PInt 10) (PInt 10))) \<noteq> 0
   \<and> 0 < num_val (tx_amount \<lparr>tx_asset = ''btc_usd'', tx_amount = PInt 10, tx_dt = 7,
                               tx_price = PInt 101, tx_order_id = 1\<rparr>)
   \<and> num_val (amount (market_order 2 ''btc_usd'' (PInt (- 5)) (PInt (- 5)))) \<noteq> 0
   \<and> 0 < num_val (tx_amount \<lparr>tx_asset = ''btc_usd'', tx_amount = PInt 5, tx_dt = 7,
                               tx_price = PInt 1, tx_order_id = 2\<rparr>)
   \<and> num_val (tx_amount \<lparr>tx_asset = ''btc_usd'', tx_amount = PInt 5, tx_dt = 7,
                           tx_price = PInt 1, tx_order_id = 2\<rparr>)
       = \<bar>num_val (amount (market_order 2 ''btc_usd'' (PInt (- 5)) (PInt (- 5))))\<bar>
   \<and> length (yielded (simulate (bar (PInt 1000) (PInt 101)) market_orders ''btc_usd''
        [market_order 1 ''btc_usd'' (PInt 10) (PInt 10),
         market_order 2 ''btc_usd'' (PInt (- 5)) (PInt (- 5))]
        (new_model (PInt 0)))) \<le> 2"
proof -
  let ?o1 = "market_order 1 ''btc_usd'' (PInt 10) (PInt 10)"
  let ?t1 = "\<lparr>tx_asset = ''btc_usd'', tx_amount = PInt 10, tx_dt = 7,
              tx_price = PInt 101, tx_order_id = 1\<rparr>"
  let ?o2 = "market_order 2 ''btc_usd'' (PInt (- 5)) (PInt (- 5))"
  let ?t2 = "\<lparr>tx_asset = ''btc_usd'', tx_amount = PInt 5, tx_dt = 7,
              tx_price = PInt 1, tx_order_id = 2\<rparr>"
  let ?r = "simulate (bar (PInt 1000) (PInt 101)) market_orders ''btc_usd'' [?o1, ?o2]
              (new_model (PInt 0))"
  have run: "yielded ?r = [(?o1, ?t1), (?o2, ?t2)]"
    by (simp add: run_defs)
  have nz: "num_val (amount ?o1) \<noteq> 0" "num_val (amount ?o2) \<noteq> 0"
    by (simp_all add: market_order_def)
  note inst = simulate_one_positive_transaction
    [of "bar (PInt 1000) (PInt 101)" market_orders "''btc_usd''" "[?o1, ?o2]"
        "new_model (PInt 0)"]
  from inst have "\<forall>(ord, txn) \<in> set (yielded ?r).
      num_val (amount ord) \<noteq> 0 \<longrightarrow> 0 < num_val (tx_amount txn)"
    by blast
  then have pos: "0 < num_val (tx_amount ?t1)" "0 < num_val (tx_amount ?t2)"
    unfolding run using nz by simp_all
  from inst have "\<forall>(ord, txn) \<in> set (yielded ?r).
      num_val (tx_amount txn) = \<bar>num_val (amount ord)\<bar>"
    by blast
  then have mag: "num_val (tx_amount ?t2) = \<bar>num_val (amount ?o2)\<bar>"
    unfolding run by simp
  from inst have "length (yielded ?r) \<le> length [?o1, ?o2]"
    by blast
  then have len: "length (yielded ?r) \<le> 2"
    by simp
  from run nz pos mag len show ?thesis by blast
qed

text \<open>
  C9. No pair yielded has an order whose open amount is zero; and an order whose open
  amount is zero is passed over: with it or without it in the list, the call yields the
  same pairs, ends the same way and leaves the same state.
\<close>

theorem simulate_skips_filled_order:
  "(\<forall>(ord, txn) \<in> set (yielded (simulate d cls a ords s)). \<not> py_eq0 (open_amount ord))
   \<and> (py_eq0 (open_amount ord0) \<longrightarrow>
        yielded (simulate d cls a (pre @ ord0 # post) s)
          = yielded (simulate d cls a (pre @ post) s)
        \<and> outcome (simulate d cls a (pre @ ord0 # post) s)
          = outcome (simulate d cls a (pre @ post) s)
        \<and> final (simulate d cls a (pre @ ord0 # post) s)
          = final (simulate d cls a (pre @ post) s))"
proof (intro conjI impI)
  show "\<forall>(ord, txn) \<in> set (yielded (simulate d cls a ords s)). \<not> py_eq0 (open_amount ord)"
    by (cases rule: simulate_cases [where d = d and a = a and cls = cls and ords = ords and s = s])
       (auto dest!: sim_loop_yielded)
next
  assume zero: "py_eq0 (open_amount ord0)"
  have loop: "yielded (sim_loop d cls price dt (pre @ ord0 # post) s')
                = yielded (sim_loop d cls price dt (pre @ post) s')
              \<and> outcome (sim_loop d cls price dt (pre @ ord0 # post) s')
                = outcome (sim_loop d cls price dt (pre @ post) s')
              \<and> final (sim_loop d cls price dt (pre @ ord0 # post) s')
                = final (sim_loop d cls price dt (pre @ post) s')" for price dt s'
    using zero by (simp add: sim_loop_append [where pre = pre] Let_def sim_loop_zero)
  have both: "yielded (simulate d cls a (pre @ ord0 # post) s)
          = yielded (simulate d cls a (pre @ post) s)
        \<and> outcome (simulate d cls a (pre @ ord0 # post) s)
          = outcome (simulate d cls a (pre @ post) s)
        \<and> final (simulate d cls a (pre @ ord0 # post) s)
          = final (simulate d cls a (pre @ post) s)"
  proof (cases rule: simulate_cases
      [where d = d and a = a and cls = cls and ords = "pre @ post" and s = s])
    case (volume_raised e)
    then show ?thesis by (simp add: simulate_def data_current_def)
  next
    case (no_volume v)
    then show ?thesis by (simp add: simulate_def data_current_def)
  next
    case (close_raised v e)
    then show ?thesis by (simp add: simulate_def data_current_def)
  next
    case (entered v price)
    then show ?thesis
      using loop [of price "current_dt d"]
      by (simp add: simulate_entered [where ords = "pre @ ord0 # post"])
  qed
  from both show "yielded (simulate d cls a (pre @ ord0 # post) s)
          = yielded (simulate d cls a (pre @ post) s)" by blast
  from both show "outcome (simulate d cls a (pre @ ord0 # post) s)
          = outcome (simulate d cls a (pre @ post) s)" by blast
  from both show "final (simulate d cls a (pre @ ord0 # post) s)
          = final (simulate d cls a (pre @ post) s)" by blast
qed

theorem simulate_skips_filled_order_witness:
  "py_eq0 (open_amount (market_order 2 ''btc_usd'' (PInt 3) (PInt 0)))
   \<and> map (\<lambda>(ord, txn). tx_order_id txn)
       (yielded (simulate (bar (PFloat 1000) (PFloat 100)) market_orders ''btc_usd''
          ([market_order 1 ''btc_usd'' (PInt 10) (PInt 10)]
           @ market_order 2 ''btc_usd'' (PInt 3) (PInt 0)
           # [market_order 3 ''btc_usd'' (PInt 7) (PInt 7)])
          (new_model DEFAULT_SLIPPAGE_SPREAD))) = [1, 3]"
proof -
  let ?d = "bar (PFloat 1000) (PFloat 100)"
  let ?pre = "[market_order 1 ''btc_usd'' (PInt 10) (PInt 10)]"
  let ?o2 = "market_order 2 ''btc_usd'' (PInt 3) (PInt 0)"
  let ?post = "[market_order 3 ''btc_usd'' (PInt 7) (PInt 7)]"
  let ?s = "new_model DEFAULT_SLIPPAGE_SPREAD"
  have zero: "py_eq0 (open_amount ?o2)"
    by (simp add: py_eq0_def market_order_def)
  note inst = simulate_skips_filled_order
    [of ?d market_orders "''btc_usd''" "?pre @ ?o2 # ?post" ?s ?o2 ?pre ?post]
  from inst zero
  have eq: "yielded (simulate ?d market_orders ''btc_usd'' (?pre @ ?o2 # ?post) ?s)
          = yielded (simulate ?d market_orders ''btc_usd'' (?pre @ ?post) ?s)"
    by blast
  have without: "map (\<lambda>(ord, txn). tx_order_id txn)
       (yielded (simulate ?d market_orders ''btc_usd'' (?pre @ ?post) ?s)) = [1, 3]"
    by (simp add: run_defs)
  from zero without show ?thesis
    unfolding eq by blast
qed

text \<open>
  C10. When \<open>process_order\<close> returns, the volume it returns is the order's requested
  amount, whatever the open amount and whatever the accumulator holds; so every
  transaction yielded has the absolute value of its order's requested amount, also for
  an order that is partly filled already.
\<close>

theorem process_order_requested_amount:
  "(\<forall>p vol s'. process_order d ord s = (Inr (p, vol), s') \<longrightarrow> vol = amount ord)
   \<and> fst (process_order d (ord\<lparr>open_amount := opn\<rparr>) (s\<lparr>volume_for_bar := acc\<rparr>))
       = fst (process_order d ord s)
   \<and> (\<forall>(ord', txn) \<in> set (yielded (simulate d cls a ords s)).
         tx_amount txn = py_abs (amount ord'))"
proof (intro conjI allI impI)
  fix p vol s'
  assume "process_order d ord s = (Inr (p, vol), s')"
  then show "vol = amount ord"
    by (simp add: process_order_Inr)
next
  show "fst (process_order d (ord\<lparr>open_amount := opn\<rparr>) (s\<lparr>volume_for_bar := acc\<rparr>))
       = fst (process_order d ord s)"
    by (simp add: process_order_def data_current_def split: sum.splits)
next
  show "\<forall>(ord', txn) \<in> set (yielded (simulate d cls a ords s)).
         tx_amount txn = py_abs (amount ord')"
    by (cases rule: simulate_cases [where d = d and a = a and cls = cls and ords = ords and s = s])
       (auto dest!: sim_loop_yielded)
qed

theorem process_order_requested_amount_witness:
  "process_order (bar (PFloat 1000) (PFloat 100))
       (market_order 1 ''btc_usd'' (PInt 10) (PInt 4)) (new_model DEFAULT_SLIPPAGE_SPREAD)
     = (Inr (Some (PFloat 102), PInt 10),
        (new_model DEFAULT_SLIPPAGE_SPREAD)\<lparr>accessed := [(''btc_usd'', ''close'')]\<rparr>)
   \<and> PInt 10 = amount (market_order 1 ''btc_usd'' (PInt 10) (PInt 4))
   \<and> map (\<lambda>(ord, txn). (open_amount ord, tx_amount txn))
       (yielded (simulate (bar (PFloat 1000) (PFloat 100)) market_orders ''btc_usd''
          [market_order 1 ''btc_usd'' (PInt 10) (PInt 4)]
          (new_model DEFAULT_SLIPPAGE_SPREAD))) = [(PInt 4, PInt 10)]"
proof -
  let ?d = "bar (PFloat 1000) (PFloat 100)"
  let ?o = "market_order 1 ''btc_usd'' (PInt 10) (PInt 4)"
  let ?s = "new_model DEFAULT_SLIPPAGE_SPREAD"
  have po: "process_order ?d ?o ?s
     = (Inr (Some (PFloat 102), PInt 10), ?s\<lparr>accessed := [(''btc_usd'', ''close'')]\<rparr>)"
    by (simp add: run_defs)
  note inst = process_order_requested_amount
    [of ?d ?o ?s "PInt 4" "PInt 0" market_orders "''btc_usd''" "[?o]"]
  from inst po have vol: "PInt 10 = amount ?o"
    by blast
  have run: "map (\<lambda>(ord, txn). (open_amount ord, tx_amount txn))
       (yielded (simulate ?d market_orders ''btc_usd'' [?o] ?s)) = [(PInt 4, PInt 10)]"
    by (simp add: run_defs)
  from po vol run show ?thesis by blast
qed

end
